theory Spec2Isabelle
  imports Complex_Main
begin

section \<open>Data model\<close>

text \<open>
  The program is one Python script, \<^verbatim>\<open>app.py\<close>. Its values are modelled as follows.
  A Python \<^verbatim>\<open>float\<close> holding a finite number is a real number, so segment times and
  durations are of type \<^typ>\<open>real\<close> (non-finite floats are outside the model). A Python
  string is a \<^typ>\<open>string\<close>. An exception is a value of type \<open>exn\<close>; every
  exception of the script is an instance of \<^verbatim>\<open>Exception\<close>, which is all its handlers ask.
\<close>

datatype exn = Raised string | Out_of_range

text \<open>A segment of the dictionary \<^verbatim>\<open>result["segments"]\<close> returned by the model.\<close>

record segment =
  seg_start :: real
  seg_end :: real
  seg_text :: string

section \<open>Formatting a segment time (lines 191-192)\<close>

text \<open>
  The script formats a time \<^verbatim>\<open>t\<close> as
  \<^verbatim>\<open>str(datetime.utcfromtimestamp(t).strftime('%H:%M:%S.%f'))[:-3]\<close>.
  The library function \<^verbatim>\<open>utcfromtimestamp\<close> splits \<^verbatim>\<open>t\<close> with \<^verbatim>\<open>modf\<close> (integral part
  towards zero, fraction of the same sign), rounds the fraction times \<open>10\<^sup>6\<close> half to even to
  whole microseconds, carries into the seconds, and reads the seconds as a calendar time in
  UTC; it raises when the year is not within 1 to 9999 (\<^verbatim>\<open>ValueError\<close>, and for times
  the platform cannot convert \<^verbatim>\<open>OverflowError\<close> or \<^verbatim>\<open>OSError\<close>; all are the one value
  \<open>Out_of_range\<close> here). The product of the fraction and \<open>10\<^sup>6\<close> is taken exactly
  here; the library rounds it to double precision, which can move a fraction that is no
  binary fraction across a microsecond boundary. The times evaluated below are binary
  fractions whose product is exact in double precision.
\<close>

definition round_half_even :: "real \<Rightarrow> int" where
  "round_half_even x =
     (let f = \<lfloor>x\<rfloor>; d = x - of_int f
      in if d < 1 / 2 then f else if 1 / 2 < d then f + 1 else if even f then f else f + 1)"

definition modf :: "real \<Rightarrow> real \<times> int" where
  "modf t = (let i = (if 0 \<le> t then \<lfloor>t\<rfloor> else \<lceil>t\<rceil>) in (t - of_int i, i))"

record datetime =
  dt_day :: int
  dt_hour :: nat
  dt_minute :: nat
  dt_second :: nat
  dt_microsecond :: nat

definition utcfromtimestamp :: "real \<Rightarrow> exn + datetime" where
  "utcfromtimestamp t =
     (let (fraction, secs) = modf t;
          us0 = round_half_even (fraction * 1000000);
          (secs', us) =
            (if 1000000 \<le> us0 then (secs + 1, us0 - 1000000)
             else if us0 < 0 then (secs - 1, us0 + 1000000)
             else (secs, us0))
      in if secs' < - 62135596800 \<or> 253402300800 \<le> secs' then Inl Out_of_range
         else Inr \<lparr>dt_day = secs' div 86400,
                   dt_hour = nat (secs' mod 86400 div 3600),
                   dt_minute = nat (secs' mod 3600 div 60),
                   dt_second = nat (secs' mod 60),
                   dt_microsecond = nat us\<rparr>)"

text \<open>Decimal digits: \<open>zero_pad w n\<close> is \<^verbatim>\<open>n\<close> written with \<open>w\<close> digits, as \<^verbatim>\<open>%02d\<close> does.\<close>

definition digit_char :: "nat \<Rightarrow> char" where
  "digit_char d = ''0123456789'' ! (d mod 10)"

fun zero_pad :: "nat \<Rightarrow> nat \<Rightarrow> string" where
  "zero_pad 0 n = []"
| "zero_pad (Suc w) n = zero_pad w (n div 10) @ [digit_char n]"

definition strftime_HMSf :: "datetime \<Rightarrow> string" where
  "strftime_HMSf d =
     zero_pad 2 (dt_hour d) @ '':'' @ zero_pad 2 (dt_minute d) @ '':'' @
     zero_pad 2 (dt_second d) @ ''.'' @ zero_pad 6 (dt_microsecond d)"

text \<open>The slice \<^verbatim>\<open>s[:-3]\<close> drops the last three characters.\<close>

definition drop_last3 :: "string \<Rightarrow> string" where
  "drop_last3 s = take (length s - 3) s"

definition formatted :: "real \<Rightarrow> exn + string" where
  "formatted t =
     (case utcfromtimestamp t of
        Inl e \<Rightarrow> Inl e
      | Inr d \<Rightarrow> Inr (drop_last3 (strftime_HMSf d)))"

text \<open>
  The loop of lines 185-194 appends one line per segment to \<^verbatim>\<open>timestamp_text\<close>; an
  exception of a formatting call leaves the loop.
\<close>

definition segment_line :: "string \<Rightarrow> string \<Rightarrow> string \<Rightarrow> string" where
  "segment_line a b txt = ''['' @ a @ '' --> '' @ b @ ''] '' @ txt @ [CHR 0x0A]"

fun timestamp_loop :: "segment list \<Rightarrow> string \<Rightarrow> exn + string" where
  "timestamp_loop [] acc = Inr acc"
| "timestamp_loop (s # ss) acc =
     (case formatted (seg_start s) of
        Inl e \<Rightarrow> Inl e
      | Inr a \<Rightarrow>
          (case formatted (seg_end s) of
             Inl e \<Rightarrow> Inl e
           | Inr b \<Rightarrow> timestamp_loop ss (acc @ segment_line a b (seg_text s))))"

section \<open>The batch loop of \<^verbatim>\<open>main\<close> (lines 144-207)\<close>

text \<open>
  An uploaded file with its \<^verbatim>\<open>name\<close> and the bytes \<^verbatim>\<open>getvalue()\<close> returns; the
  dictionary \<^verbatim>\<open>model.transcribe\<close> returns; and the two dictionaries the loop appends to
  \<^verbatim>\<open>all_results\<close> and \<^verbatim>\<open>all_timestamps\<close>.
\<close>

record audio_item =
  item_name :: string
  item_bytes :: "nat list"

record whisper_result =
  res_text :: string
  res_segments :: "segment list"

record file_result =
  filename :: string
  full_text :: string
  transcribe_time :: real
  segments :: "segment list"

record timestamp_entry =
  ts_filename :: string
  timestamp_text :: string

text \<open>
  What the loop calls outside the script. Each function takes the position \<^verbatim>\<open>idx\<close> of the
  item in the batch first, so that the outcome may differ from one call to the next.
  \<^item> \<open>named_temporary_file idx suffix\<close>: \<^verbatim>\<open>tempfile.NamedTemporaryFile(delete=False, suffix=...)\<close>
    creates a file and returns its path, or raises and creates nothing.
  \<^item> \<open>tmp_write idx path bytes\<close>: \<^verbatim>\<open>tmp_file.write(uploaded_file.getvalue())\<close> returns
    (\<open>None\<close>) or raises; leaving the \<^verbatim>\<open>with\<close> block closes the file and, with
    \<^verbatim>\<open>delete=False\<close>, does not remove it.
  \<^item> \<open>model_transcribe idx path options\<close>: \<^verbatim>\<open>model.transcribe(temp_filename, **options)\<close>.
  \<^item> \<open>elapsed idx\<close>: the difference of the two \<^verbatim>\<open>time.time()\<close> readings around it.
\<close>

record env =
  named_temporary_file :: "nat \<Rightarrow> string \<Rightarrow> exn + string"
  tmp_write :: "nat \<Rightarrow> string \<Rightarrow> nat list \<Rightarrow> exn option"
  model_transcribe :: "nat \<Rightarrow> string \<Rightarrow> (string \<times> string) list \<Rightarrow> exn + whisper_result"
  elapsed :: "nat \<Rightarrow> real"

text \<open>
  The state the loop works on: the paths that exist in the directory of temporary files, the
  two result lists, and the calls of \<^verbatim>\<open>st.error\<close> (file name and exception; the fixed
  words of the message are left out).
\<close>

record state =
  files :: "string set"
  all_results :: "file_result list"
  all_timestamps :: "timestamp_entry list"
  st_errors :: "(string \<times> exn) list"

text \<open>
  A run either comes to its end (\<open>Done\<close>) or is left by an exception that no handler of
  \<^verbatim>\<open>main\<close> catches (\<open>Uncaught\<close>); both carry the state reached.
\<close>

datatype outcome = Done state | Uncaught exn state

fun final_state :: "outcome \<Rightarrow> state" where
  "final_state (Done s) = s"
| "final_state (Uncaught e s) = s"

text \<open>\<^verbatim>\<open>file_name.split('.')[-1]\<close>: what follows the last dot, or the whole name.\<close>

definition split_last :: "string \<Rightarrow> string" where
  "split_last file_name = rev (takeWhile (\<lambda>c. c \<noteq> CHR ''.'') (rev file_name))"

definition suffix_of :: "audio_item \<Rightarrow> string" where
  "suffix_of uploaded_file = ''.'' @ split_last (item_name uploaded_file)"

text \<open>Lines 166-168: the language is passed on only when the selection is not empty.\<close>

definition transcribe_options :: "string \<Rightarrow> (string \<times> string) list" where
  "transcribe_options language_option =
     (if language_option \<noteq> [] then [(''language'', language_option)] else [])"

text \<open>
  The \<^verbatim>\<open>try\<close> block with its \<^verbatim>\<open>except Exception\<close> handler (lines 161-202). The result
  is appended to \<^verbatim>\<open>all_results\<close> (line 182) before the segments are formatted, and to
  \<^verbatim>\<open>all_timestamps\<close> (line 196) after.
\<close>

definition try_except :: "env \<Rightarrow> string \<Rightarrow> nat \<Rightarrow> audio_item \<Rightarrow> string \<Rightarrow> state \<Rightarrow> state" where
  "try_except env language_option idx uploaded_file temp_filename st =
     (case model_transcribe env idx temp_filename (transcribe_options language_option) of
        Inl e \<Rightarrow> st\<lparr>st_errors := st_errors st @ [(item_name uploaded_file, e)]\<rparr>
      | Inr result \<Rightarrow>
          (let st1 = st\<lparr>all_results := all_results st @
                      [\<lparr>filename = item_name uploaded_file,
                        full_text = res_text result,
                        transcribe_time = elapsed env idx,
                        segments = res_segments result\<rparr>]\<rparr>
           in case timestamp_loop (res_segments result) [] of
                Inl e \<Rightarrow> st1\<lparr>st_errors := st_errors st1 @ [(item_name uploaded_file, e)]\<rparr>
              | Inr txt \<Rightarrow>
                  st1\<lparr>all_timestamps := all_timestamps st1 @
                        [\<lparr>ts_filename = item_name uploaded_file, timestamp_text = txt\<rparr>]\<rparr>))"

text \<open>The \<^verbatim>\<open>finally\<close> block (lines 204-207).\<close>

definition finally_unlink :: "string \<Rightarrow> state \<Rightarrow> state" where
  "finally_unlink temp_filename st =
     (if temp_filename \<in> files st then st\<lparr>files := files st - {temp_filename}\<rparr> else st)"

text \<open>
  One pass of the loop body (lines 150-207). The \<^verbatim>\<open>with\<close> block of lines 157-159 stands
  before the \<^verbatim>\<open>try\<close>: an exception in it is not caught.
\<close>

definition process_file :: "env \<Rightarrow> string \<Rightarrow> nat \<Rightarrow> audio_item \<Rightarrow> state \<Rightarrow> outcome" where
  "process_file env language_option idx uploaded_file st =
     (case named_temporary_file env idx (suffix_of uploaded_file) of
        Inl e \<Rightarrow> Uncaught e st
      | Inr temp_filename \<Rightarrow>
          (let st1 = st\<lparr>files := insert temp_filename (files st)\<rparr>
           in case tmp_write env idx temp_filename (item_bytes uploaded_file) of
                Some e \<Rightarrow> Uncaught e st1
              | None \<Rightarrow>
                  Done (finally_unlink temp_filename
                         (try_except env language_option idx uploaded_file temp_filename st1))))"

text \<open>The loop \<^verbatim>\<open>for idx, uploaded_file in enumerate(uploaded_files)\<close> (line 149).\<close>

fun process_files :: "env \<Rightarrow> string \<Rightarrow> nat \<Rightarrow> audio_item list \<Rightarrow> state \<Rightarrow> outcome" where
  "process_files env language_option idx [] st = Done st"
| "process_files env language_option idx (uploaded_file # rest) st =
     (case process_file env language_option idx uploaded_file st of
        Uncaught e st' \<Rightarrow> Uncaught e st'
      | Done st' \<Rightarrow> process_files env language_option (Suc idx) rest st')"

text \<open>
  Lines 144-207: both lists start empty; \<open>fs\<close> are the paths that exist before. The
  calls that only draw the progress bar and the status line are left out. The script runs
  the loop only for a list that is not empty; for the empty list \<open>main_batch\<close> gives
  the two empty lists.
\<close>

definition main_batch :: "env \<Rightarrow> string \<Rightarrow> audio_item list \<Rightarrow> string set \<Rightarrow> outcome" where
  "main_batch env language_option uploaded_files fs =
     process_files env language_option 0 uploaded_files
       \<lparr>files = fs, all_results = [], all_timestamps = [], st_errors = []\<rparr>"

section \<open>The combined download (lines 260-275)\<close>

text \<open>
  \<^verbatim>\<open>next((t for t in all_timestamps if t["filename"] == result["filename"]), None)\<close>:
  the first entry of that file name, if there is one.
\<close>

definition timestamp_data :: "timestamp_entry list \<Rightarrow> string \<Rightarrow> timestamp_entry option" where
  "timestamp_data ts name = find (\<lambda>t. ts_filename t = name) ts"

definition header :: "string \<Rightarrow> string" where
  "header name = ''=== '' @ name @ '' ==='' @ [CHR 0x0A, CHR 0x0A]"

text \<open>
  The loop of lines 268-275 over \<^verbatim>\<open>all_results\<close>, on the pair of \<^verbatim>\<open>combined_text\<close> and
  \<^verbatim>\<open>combined_timestamp_text\<close>.
\<close>

fun combine_loop ::
  "file_result list \<Rightarrow> timestamp_entry list \<Rightarrow> string \<times> string \<Rightarrow> string \<times> string" where
  "combine_loop [] ts acc = acc"
| "combine_loop (r # rs) ts (combined_text, combined_timestamp_text) =
     combine_loop rs ts
       (combined_text @ header (filename r) @ full_text r @ [CHR 0x0A, CHR 0x0A],
        (case timestamp_data ts (filename r) of
           None \<Rightarrow> combined_timestamp_text
         | Some t \<Rightarrow>
             combined_timestamp_text @ header (filename r) @ timestamp_text t @
             [CHR 0x0A, CHR 0x0A]))"

text \<open>The two texts are built only when there is more than one result (line 260).\<close>

definition combined_download ::
  "file_result list \<Rightarrow> timestamp_entry list \<Rightarrow> (string \<times> string) option" where
  "combined_download results ts =
     (if 1 < length results then Some (combine_loop results ts ([], [])) else None)"

section \<open>Loading the model (lines 24-28)\<close>

text \<open>
  The body of \<^verbatim>\<open>load_whisper_model\<close> chooses the device and calls
  \<^verbatim>\<open>whisper.load_model\<close>, which returns a new object or raises. An object is modelled by
  its identity (a number no other object of the run has), the name and the device it was
  loaded with.
\<close>

datatype device = Cuda | Cpu

record model_handle =
  handle_id :: nat
  handle_name :: string
  handle_device :: device

record host =
  cuda_is_available :: bool
  whisper_load_model :: "string \<Rightarrow> device \<Rightarrow> exn option"

text \<open>
  Lines 27-28. The device is \<^verbatim>\<open>"cuda" if torch.cuda.is_available() else "cpu"\<close>. The call
  of \<^verbatim>\<open>whisper.load_model(model_name, device=device)\<close> is written into the log of loads,
  whether it returns or raises; the identity of a new handle is the number of loads before
  it.
\<close>

definition load_body ::
  "host \<Rightarrow> (string \<times> device) list \<Rightarrow> string \<Rightarrow> (exn + model_handle) \<times> (string \<times> device) list" where
  "load_body h loads model_name =
     (let device = (if cuda_is_available h then Cuda else Cpu)
      in (case whisper_load_model h model_name device of
            Some e \<Rightarrow> Inl e
          | None \<Rightarrow>
              Inr \<lparr>handle_id = length loads, handle_name = model_name, handle_device = device\<rparr>,
          loads @ [(model_name, device)]))"

text \<open>
  Modelled from the spec: the decorator \<^verbatim>\<open>@st.cache_resource\<close> of line 24 is code of the
  Streamlit library, which is not part of the sources. The spec says of it that the first call for
  an identifier performs the load and that later calls with the same identifier, within the
  life of the process, return the handle loaded before; the comment of line 23 says that
  the model is not to be loaded again. So the provider keeps the handles by model name,
  beside the log of the loads performed; a call whose body raises stores nothing.
\<close>

record provider =
  cache :: "(string \<times> model_handle) list"
  load_calls :: "(string \<times> device) list"

definition load_whisper_model ::
  "host \<Rightarrow> provider \<Rightarrow> string \<Rightarrow> (exn + model_handle) \<times> provider" where
  "load_whisper_model h p model_name =
     (case map_of (cache p) model_name of
        Some m \<Rightarrow> (Inr m, p)
      | None \<Rightarrow>
          (case load_body h (load_calls p) model_name of
             (Inl e, loads) \<Rightarrow> (Inl e, p\<lparr>load_calls := loads\<rparr>)
           | (Inr m, loads) \<Rightarrow>
               (Inr m, p\<lparr>cache := (model_name, m) # cache p, load_calls := loads\<rparr>)))"

text \<open>The provider after a sequence of calls, whatever they return.\<close>

fun calls :: "host \<Rightarrow> provider \<Rightarrow> string list \<Rightarrow> provider" where
  "calls h p [] = p"
| "calls h p (n # ns) = calls h (snd (load_whisper_model h p n)) ns"

section \<open>The probe for FFmpeg (lines 30-67)\<close>

text \<open>
  What \<^verbatim>\<open>check_ffmpeg\<close> asks of the host: the two runs of \<^verbatim>\<open>subprocess.run\<close>, each
  returning a return code or raising (as it does when the executable is not found), and
  \<^verbatim>\<open>os.path.exists\<close> of the Chocolatey path. \<^verbatim>\<open>os.environ\<close> is a map; reading a variable
  that is not set raises \<^verbatim>\<open>KeyError\<close>. The messages shown are kept by their kind.
\<close>

record probe_host =
  run_ffmpeg :: "exn + int"
  chocolatey_exists :: bool
  run_chocolatey :: "exn + int"

datatype ui_message =
  Success_detected | Success_chocolatey | Warning_not_found | Info_reopen_shell
  | Warning_check_problem exn | Info_check_install

text \<open>
  The directory \<^verbatim>\<open>C:\ProgramData\chocolatey\bin;\<close> put before the old value of
  \<^verbatim>\<open>PATH\<close> (line 54); the character \<open>0x5C\<close> is the backslash.
\<close>

definition chocolatey_bin :: string where
  "chocolatey_bin =
     ''C:'' @ [CHR 0x5C] @ ''ProgramData'' @ [CHR 0x5C] @ ''chocolatey'' @ [CHR 0x5C] @ ''bin;''"

definition not_found ::
  "(string \<rightharpoonup> string) \<Rightarrow> ui_message list \<Rightarrow> bool \<times> (string \<rightharpoonup> string) \<times> ui_message list" where
  "not_found environ shown = (False, environ, shown @ [Warning_not_found, Info_reopen_shell])"

definition check_ffmpeg ::
  "probe_host \<Rightarrow> (string \<rightharpoonup> string) \<Rightarrow> bool \<times> (string \<rightharpoonup> string) \<times> ui_message list" where
  "check_ffmpeg h environ =
     (case run_ffmpeg h of
        Inl e \<Rightarrow> (False, environ, [Warning_check_problem e, Info_check_install])
      | Inr returncode \<Rightarrow>
          if returncode = 0 then (True, environ, [Success_detected])
          else if chocolatey_exists h then
            (case run_chocolatey h of
               Inl e \<Rightarrow> not_found environ []
             | Inr returncode2 \<Rightarrow>
                 if returncode2 = 0 then
                   (case environ ''PATH'' of
                      None \<Rightarrow> not_found environ [Success_chocolatey]
                    | Some v \<Rightarrow>
                        (True, environ(''PATH'' \<mapsto> chocolatey_bin @ v), [Success_chocolatey]))
                 else not_found environ [])
          else not_found environ [])"

definition environ_after :: "probe_host \<Rightarrow> (string \<rightharpoonup> string) \<Rightarrow> (string \<rightharpoonup> string)" where
  "environ_after h environ = fst (snd (check_ffmpeg h environ))"

section \<open>Notions of the specification\<close>

text \<open>
  The shape \<^verbatim>\<open>HH:MM:SS.mmm\<close> of a formatted time: two digits each for an hour below 24,
  a minute and a second below 60, and three digits for the milliseconds.
\<close>

definition hms :: "nat \<Rightarrow> nat \<Rightarrow> nat \<Rightarrow> nat \<Rightarrow> string" where
  "hms h m s ms =
     zero_pad 2 h @ '':'' @ zero_pad 2 m @ '':'' @ zero_pad 2 s @ ''.'' @ zero_pad 3 ms"

definition is_hms :: "string \<Rightarrow> bool" where
  "is_hms x = (\<exists>h m s ms. h < 24 \<and> m < 60 \<and> s < 60 \<and> ms < 1000 \<and> x = hms h m s ms)"

text \<open>
  A string is the line of a segment: \<^verbatim>\<open>[HH:MM:SS.mmm --> HH:MM:SS.mmm] <text>\<close> and a line
  feed, the two times being the formatted start and end of the segment.
\<close>

definition line_of :: "segment \<Rightarrow> string \<Rightarrow> bool" where
  "line_of seg l =
     (\<exists>a b. formatted (seg_start seg) = Inr a \<and> formatted (seg_end seg) = Inr b \<and>
            is_hms a \<and> is_hms b \<and>
            l = ''['' @ a @ '' --> '' @ b @ ''] '' @ seg_text seg @ [CHR 0x0A])"

text \<open>
  The result the loop appends for the item at position \<open>fst p\<close>, when the call of
  \<^verbatim>\<open>model.transcribe\<close> for it returns; \<open>None\<close> when that call raises (the item has
  failed) or no temporary file could be made for it.
\<close>

definition result_of :: "env \<Rightarrow> string \<Rightarrow> nat \<times> audio_item \<Rightarrow> file_result option" where
  "result_of env language_option p =
     (case named_temporary_file env (fst p) (suffix_of (snd p)) of
        Inl e \<Rightarrow> None
      | Inr temp_filename \<Rightarrow>
          (case model_transcribe env (fst p) temp_filename (transcribe_options language_option) of
             Inl e \<Rightarrow> None
           | Inr result \<Rightarrow>
               Some \<lparr>filename = item_name (snd p),
                     full_text = res_text result,
                     transcribe_time = elapsed env (fst p),
                     segments = res_segments result\<rparr>))"

text \<open>
  Times from 0 up to the last second of the year 9999: for these no formatting call raises.
\<close>

definition in_calendar :: "real \<Rightarrow> bool" where
  "in_calendar t = (0 \<le> t \<and> t \<le> 253402300799)"

text \<open>The two lists name the same files in the same places.\<close>

definition parallel :: "state \<Rightarrow> bool" where
  "parallel st = (map filename (all_results st) = map ts_filename (all_timestamps st))"

section \<open>Example inputs\<close>

text \<open>
  Two uploaded files and two hosts. On the first host the transcription of the first item
  raises and that of every other item returns one segment; on the second every write to a
  temporary file raises.
\<close>

definition file_a :: audio_item where
  "file_a = \<lparr>item_name = ''a.mp3'', item_bytes = [1]\<rparr>"

definition file_b :: audio_item where
  "file_b = \<lparr>item_name = ''b.wav'', item_bytes = [2]\<rparr>"

definition empty_state :: state where
  "empty_state = \<lparr>files = {}, all_results = [], all_timestamps = [], st_errors = []\<rparr>"

definition demo_env :: env where
  "demo_env =
     \<lparr>named_temporary_file = (\<lambda>idx suffix. Inr (''/tmp/tmp'' @ suffix)),
      tmp_write = (\<lambda>idx path bytes. None),
      model_transcribe = (\<lambda>idx path options.
        if idx = 0 then Inl (Raised ''corrupt file'')
        else Inr \<lparr>res_text = ''hi'',
                  res_segments = [\<lparr>seg_start = 3 / 2, seg_end = 13 / 4, seg_text = ''hi''\<rparr>]\<rparr>),
      elapsed = (\<lambda>idx. 2)\<rparr>"

definition full_disk_env :: env where
  "full_disk_env =
     \<lparr>named_temporary_file = (\<lambda>idx suffix. Inr (''/tmp/tmp'' @ suffix)),
      tmp_write = (\<lambda>idx path bytes. Some (Raised ''No space left on device'')),
      model_transcribe = (\<lambda>idx path options. Inr \<lparr>res_text = [], res_segments = []\<rparr>),
      elapsed = (\<lambda>idx. 0)\<rparr>"

text \<open>
  A host without CUDA and one with CUDA, on both of which every load returns; a host on
  which the load of \<^verbatim>\<open>large\<close> raises; and the provider before any call.
\<close>

definition cpu_host :: host where
  "cpu_host = \<lparr>cuda_is_available = False, whisper_load_model = (\<lambda>name device. None)\<rparr>"

definition gpu_host :: host where
  "gpu_host = \<lparr>cuda_is_available = True, whisper_load_model = (\<lambda>name device. None)\<rparr>"

definition small_gpu_host :: host where
  "small_gpu_host =
     \<lparr>cuda_is_available = True,
      whisper_load_model = (\<lambda>name device.
        if name = ''large'' then Some (Raised ''CUDA out of memory'') else None)\<rparr>"

definition empty_provider :: provider where
  "empty_provider = \<lparr>cache = [], load_calls = []\<rparr>"

text \<open>
  Two hosts with a working executable at the Chocolatey path and none that answers on the
  search path: on the first the run of \<^verbatim>\<open>ffmpeg\<close> raises because no such file is found,
  on the second it returns the code 1. And an environment with \<^verbatim>\<open>PATH\<close> set.
\<close>

definition missing_ffmpeg_host :: probe_host where
  "missing_ffmpeg_host =
     \<lparr>run_ffmpeg = Inl (Raised ''[Errno 2] No such file or directory''),
      chocolatey_exists = True, run_chocolatey = Inr 0\<rparr>"

definition chocolatey_host :: probe_host where
  "chocolatey_host =
     \<lparr>run_ffmpeg = Inr 1, chocolatey_exists = True, run_chocolatey = Inr 0\<rparr>"

definition windows_environ :: "string \<rightharpoonup> string" where
  "windows_environ = [''PATH'' \<mapsto> ''C:/Windows'']"

section \<open>Formatted times\<close>

lemma zero_pad_numeral:
  "zero_pad (numeral k) n = zero_pad (pred_numeral k) (n div 10) @ [digit_char n]"
  by (simp only: numeral_eq_Suc[of k] zero_pad.simps)

lemma length_zero_pad: "length (zero_pad w n) = w"
  by (induction w arbitrary: n) simp_all

lemma zero_pad_2: "zero_pad 2 n = [digit_char (n div 10), digit_char n]"
  by (simp add: zero_pad_numeral)

lemma zero_pad_3: "zero_pad 3 n = [digit_char (n div 100), digit_char (n div 10), digit_char n]"
  by (simp add: zero_pad_numeral div_mult2_eq[symmetric])

lemma zero_pad_6: "zero_pad 6 n = zero_pad 3 (n div 1000) @ zero_pad 3 n"
  by (simp add: zero_pad_numeral div_mult2_eq[symmetric])

text \<open>Dropping the last three of the six microsecond digits leaves the milliseconds.\<close>

lemma drop_last3_strftime:
  "drop_last3 (strftime_HMSf d) =
     hms (dt_hour d) (dt_minute d) (dt_second d) (dt_microsecond d div 1000)"
  by (simp add: drop_last3_def strftime_HMSf_def hms_def zero_pad_6 length_zero_pad)

lemma round_half_even_bounds:
  "x - 1 / 2 \<le> of_int (round_half_even x) \<and> of_int (round_half_even x) \<le> x + 1 / 2"
  unfolding round_half_even_def Let_def by (auto; linarith)

lemma modf_bounds: "modf t = (fr, i) \<Longrightarrow> - 1 < fr \<and> fr < 1"
  unfolding modf_def Let_def by (auto split: if_splits; linarith)

lemma utcfromtimestamp_fields:
  assumes "utcfromtimestamp t = Inr d"
  shows "dt_hour d < 24 \<and> dt_minute d < 60 \<and> dt_second d < 60 \<and> dt_microsecond d < 1000000"
proof -
  obtain fr i where m: "modf t = (fr, i)" by (cases "modf t")
  from modf_bounds[OF m] have "- 1000000 < fr * 1000000" "fr * 1000000 < 1000000" by simp_all
  with round_half_even_bounds[of "fr * 1000000"]
  have "- 1000000 - 1 / 2 < real_of_int (round_half_even (fr * 1000000))"
    "real_of_int (round_half_even (fr * 1000000)) < 1000000 + 1 / 2"
    by linarith+
  then have b: "- 1000000 \<le> round_half_even (fr * 1000000)"
    "round_half_even (fr * 1000000) \<le> 1000000" by linarith+
  from assms m b show ?thesis
    unfolding utcfromtimestamp_def Let_def
    by (auto split: if_splits simp: nat_less_iff)
qed

lemma formatted_shape:
  assumes "formatted t = Inr x"
  shows "is_hms x"
proof -
  from assms obtain d where d: "utcfromtimestamp t = Inr d"
    and x: "x = drop_last3 (strftime_HMSf d)"
    unfolding formatted_def by (auto split: sum.splits)
  from utcfromtimestamp_fields[OF d] have "dt_microsecond d div 1000 < 1000"
    by (simp add: div_less_iff_less_mult)
  with utcfromtimestamp_fields[OF d] x show ?thesis
    unfolding drop_last3_strftime is_hms_def by blast
qed

lemma timestamp_loop_lines:
  "timestamp_loop segs acc = Inr txt \<Longrightarrow>
     \<exists>ls. list_all2 line_of segs ls \<and> txt = acc @ concat ls"
proof (induction segs arbitrary: acc)
  case Nil
  then show ?case by simp
next
  case (Cons seg segs)
  from Cons.prems obtain a b where a: "formatted (seg_start seg) = Inr a"
    and b: "formatted (seg_end seg) = Inr b"
    and r: "timestamp_loop segs (acc @ segment_line a b (seg_text seg)) = Inr txt"
    by (auto split: sum.splits)
  from Cons.IH[OF r] obtain ls where ls: "list_all2 line_of segs ls"
    and t: "txt = (acc @ segment_line a b (seg_text seg)) @ concat ls" by blast
  from a b formatted_shape[OF a] formatted_shape[OF b]
  have "line_of seg (segment_line a b (seg_text seg))"
    unfolding line_of_def segment_line_def by blast
  with ls t have "list_all2 line_of (seg # segs) (segment_line a b (seg_text seg) # ls) \<and>
      txt = acc @ concat (segment_line a b (seg_text seg) # ls)" by simp
  then show ?case by blast
qed

lemmas formatted_eval =
  formatted_def utcfromtimestamp_def modf_def round_half_even_def Let_def
  drop_last3_strftime hms_def zero_pad_2 zero_pad_3 digit_char_def

lemma formatted_1500: "formatted (3 / 2) = Inr ''00:00:01.500''"
  by (simp add: formatted_eval)

lemma formatted_3250: "formatted (13 / 4) = Inr ''00:00:03.250''"
  by (simp add: formatted_eval)

lemma formatted_year_10000: "formatted 253402300800 = Inl Out_of_range"
  by (simp add: formatted_eval)

text \<open>
  What the script computes for a time in the calendar range: the time in whole
  microseconds, rounded half to even, then the second, minute and hour of the day of that
  instant. So the hours are taken modulo 24, and no formatting call raises.
\<close>

lemma round_half_even_add_even:
  "even k \<Longrightarrow> round_half_even (x + of_int k) = round_half_even x + k"
  by (simp add: round_half_even_def Let_def)

lemma utcfromtimestamp_decomposition:
  assumes "in_calendar t"
  shows "utcfromtimestamp t =
     Inr \<lparr>dt_day = round_half_even (t * 1000000) div 1000000 div 86400,
          dt_hour = nat (round_half_even (t * 1000000) div 1000000 mod 86400 div 3600),
          dt_minute = nat (round_half_even (t * 1000000) div 1000000 mod 3600 div 60),
          dt_second = nat (round_half_even (t * 1000000) div 1000000 mod 60),
          dt_microsecond = nat (round_half_even (t * 1000000) mod 1000000)\<rparr>"
proof -
  have t: "0 \<le> t" "t \<le> 253402300799" using assms by (simp_all add: in_calendar_def)
  define i where "i = \<lfloor>t\<rfloor>"
  define u where "u = round_half_even ((t - of_int i) * 1000000)"
  define T where "T = round_half_even (t * 1000000)"
  have m: "modf t = (t - of_int i, i)" using t by (simp add: modf_def i_def Let_def)
  have i0: "0 \<le> i" using t by (simp add: i_def)
  have i1: "i \<le> 253402300799" using t unfolding i_def by linarith
  have "0 \<le> t - of_int i" "t - of_int i < 1" unfolding i_def by linarith+
  then have fr: "0 \<le> (t - of_int i) * 1000000" "(t - of_int i) * 1000000 < 1000000" by simp_all
  have "(t - of_int i) * 1000000 - 1 / 2 \<le> real_of_int u"
    "real_of_int u \<le> (t - of_int i) * 1000000 + 1 / 2"
    using round_half_even_bounds[of "(t - of_int i) * 1000000"] unfolding u_def by blast+
  with fr have "- 1 / 2 \<le> real_of_int u" "real_of_int u < 1000000 + 1 / 2" by linarith+
  then have u0: "0 \<le> u" and u1: "u \<le> 1000000" by linarith+
  have carry: "i < 253402300799" if "1000000 \<le> u"
  proof (rule ccontr)
    assume "\<not> i < 253402300799"
    with i1 have "i = 253402300799" by simp
    with t have "t = of_int i" unfolding i_def by linarith
    then have "u = 0" by (simp add: u_def round_half_even_def)
    with that show False by simp
  qed
  have "t * 1000000 = (t - of_int i) * 1000000 + of_int (i * 1000000)" by (simp add: algebra_simps)
  then have "T = round_half_even ((t - of_int i) * 1000000 + of_int (i * 1000000))"
    unfolding T_def by simp
  also have "\<dots> = u + i * 1000000"
    unfolding u_def by (rule round_half_even_add_even) simp
  finally have T: "T = i * 1000000 + u" by simp
  show ?thesis
  proof (cases "1000000 \<le> u")
    case True
    with u1 have u: "u = 1000000" by simp
    with T have T': "T = (i + 1) * 1000000" by (simp add: algebra_simps)
    from carry[OF True] i0 show ?thesis
      unfolding utcfromtimestamp_def m Let_def prod.case u_def[symmetric] T_def[symmetric]
      by (simp add: u T')
  next
    case False
    with u0 have d: "T div 1000000 = i" "T mod 1000000 = u" unfolding T by simp_all
    from False u0 i0 i1 show ?thesis
      unfolding utcfromtimestamp_def m Let_def prod.case u_def[symmetric] T_def[symmetric]
      by (simp add: d)
  qed
qed

lemma formatted_decomposition:
  assumes "in_calendar t"
  shows "formatted t =
     Inr (hms (nat (round_half_even (t * 1000000) div 1000000 mod 86400 div 3600))
              (nat (round_half_even (t * 1000000) div 1000000 mod 3600 div 60))
              (nat (round_half_even (t * 1000000) div 1000000 mod 60))
              (nat (round_half_even (t * 1000000) mod 1000000) div 1000))"
  by (simp add: formatted_def utcfromtimestamp_decomposition[OF assms] drop_last3_strftime)

lemma utcfromtimestamp_in_calendar: "in_calendar t \<Longrightarrow> \<exists>d. utcfromtimestamp t = Inr d"
  using utcfromtimestamp_decomposition[of t] by blast

lemma formatted_in_calendar: "in_calendar t \<Longrightarrow> \<exists>x. formatted t = Inr x"
  using utcfromtimestamp_in_calendar[of t] by (auto simp: formatted_def)

lemma timestamp_loop_in_calendar:
  "\<forall>s \<in> set segs. in_calendar (seg_start s) \<and> in_calendar (seg_end s) \<Longrightarrow>
     \<exists>out. timestamp_loop segs acc = Inr out"
proof (induction segs arbitrary: acc)
  case Nil
  then show ?case by simp
next
  case (Cons s segs)
  from Cons.prems obtain a b where "formatted (seg_start s) = Inr a" "formatted (seg_end s) = Inr b"
    using formatted_in_calendar by (metis list.set_intros(1))
  moreover from Cons.prems have "\<forall>s \<in> set segs. in_calendar (seg_start s) \<and> in_calendar (seg_end s)"
    by simp
  ultimately show ?case using Cons.IH by simp
qed

text \<open>
  C3. Claim: for every segment time \<open>t \<ge> 0\<close> the formatted time is the arithmetic
  decomposition of \<open>t\<close>: the hours field is \<open>\<lfloor>t / 3600\<rfloor>\<close> also from 86400 seconds on,
  no date rollover affects the output, and the milliseconds are \<open>t\<close> truncated, not rounded.
  The script does otherwise. The hours are those of the calendar time of day: at
  \<open>t = 86400\<close> the output is \<^verbatim>\<open>00:00:00.000\<close>, where the claim asks for the hours 24. And
  \<open>t\<close> is rounded to whole microseconds before the last three digits are dropped: at
  \<open>t = 1 - 2\<^sup>-\<^sup>2\<^sup>1\<close> (0.99999952...) the output is \<^verbatim>\<open>00:00:01.000\<close>, where truncation
  gives 999 milliseconds in second 0.
\<close>

theorem formatted_wraps_and_rounds:
  "formatted 86400 = Inr ''00:00:00.000'' \<and>
   formatted (2097151 / 2097152) = Inr ''00:00:01.000''"
  by (simp add: formatted_eval)

text \<open>
  C4. For the segment list \<^verbatim>\<open>[{start: 1.5, end: 3.25, text: "hi"}]\<close> the text built is
  exactly the line \<^verbatim>\<open>[00:00:01.500 --> 00:00:03.250] hi\<close> with its line feed; and whenever
  the loop over a segment list returns, its text is the concatenation, in segment order,
  of one line per segment, each of the shape \<^verbatim>\<open>[HH:MM:SS.mmm --> HH:MM:SS.mmm] <text>\<close>
  with the formatted start and end of its segment.
\<close>

theorem timestamp_text_format:
  "timestamp_loop [\<lparr>seg_start = 3 / 2, seg_end = 13 / 4, seg_text = ''hi''\<rparr>] [] =
     Inr ''[00:00:01.500 --> 00:00:03.250] hi\<newline>'' \<and>
   (\<forall>segs txt. timestamp_loop segs [] = Inr txt \<longrightarrow>
      (\<exists>ls. list_all2 line_of segs ls \<and> txt = concat ls))"
proof (intro conjI allI impI)
  show "timestamp_loop [\<lparr>seg_start = 3 / 2, seg_end = 13 / 4, seg_text = ''hi''\<rparr>] [] =
     Inr ''[00:00:01.500 --> 00:00:03.250] hi\<newline>''"
    by (simp add: formatted_1500 formatted_3250 segment_line_def)
next
  fix segs out
  assume "timestamp_loop segs [] = Inr out"
  from timestamp_loop_lines[OF this]
  show "\<exists>ls. list_all2 line_of segs ls \<and> out = concat ls" by simp
qed

theorem timestamp_text_format_witness:
  "\<exists>ls. list_all2 line_of [\<lparr>seg_start = 3 / 2, seg_end = 13 / 4, seg_text = ''hi''\<rparr>] ls \<and>
     ''[00:00:01.500 --> 00:00:03.250] hi\<newline>'' = concat ls"
  using timestamp_text_format by blast

section \<open>The batch loop\<close>

text \<open>What the handler and the \<^verbatim>\<open>finally\<close> block change, field by field.\<close>

lemma finally_unlink_fields:
  "all_results (finally_unlink tmp st) = all_results st"
  "all_timestamps (finally_unlink tmp st) = all_timestamps st"
  "st_errors (finally_unlink tmp st) = st_errors st"
  "files (finally_unlink tmp st) = files st - {tmp}"
  by (auto simp: finally_unlink_def)

lemma try_except_files: "files (try_except env lang idx f tmp st) = files st"
  by (simp add: try_except_def Let_def split: sum.splits)

lemma try_except_results:
  "all_results (try_except env lang idx f tmp st) =
     all_results st @
       (case model_transcribe env idx tmp (transcribe_options lang) of
          Inl e \<Rightarrow> []
        | Inr result \<Rightarrow>
            [\<lparr>filename = item_name f, full_text = res_text result,
              transcribe_time = elapsed env idx, segments = res_segments result\<rparr>])"
  by (simp add: try_except_def Let_def split: sum.splits)

lemma try_except_raises:
  "model_transcribe env idx tmp (transcribe_options lang) = Inl e \<Longrightarrow>
     try_except env lang idx f tmp st = st\<lparr>st_errors := st_errors st @ [(item_name f, e)]\<rparr>"
  by (simp add: try_except_def)

text \<open>A pass that comes to its end appends the result of its item, if it has one.\<close>

lemma process_file_results:
  "process_file env lang idx f st = Done st' \<Longrightarrow>
     all_results st' =
       all_results st @ (case result_of env lang (idx, f) of None \<Rightarrow> [] | Some r \<Rightarrow> [r])"
  by (auto simp: process_file_def result_of_def Let_def finally_unlink_fields try_except_results
      split: sum.splits option.splits)

lemma process_files_results:
  "process_files env lang idx fs st = Done st' \<Longrightarrow>
     all_results st' = all_results st @ List.map_filter (result_of env lang) (enumerate idx fs)"
proof (induction fs arbitrary: idx st)
  case Nil
  then show ?case by simp
next
  case (Cons f fs)
  from Cons.prems obtain st1 where 1: "process_file env lang idx f st = Done st1"
    and 2: "process_files env lang (Suc idx) fs st1 = Done st'"
    by (auto split: outcome.splits)
  from process_file_results[OF 1] Cons.IH[OF 2] show ?case
    by (simp split: option.splits)
qed

text \<open>
  A pass that comes to its end has removed its temporary file, and so has a loop that comes
  to its end: the \<^verbatim>\<open>finally\<close> block runs after success and after a caught exception.
\<close>

lemma process_file_files:
  "process_file env lang idx f st = Done st' \<Longrightarrow>
     \<exists>tmp. named_temporary_file env idx (suffix_of f) = Inr tmp \<and> files st' = files st - {tmp}"
  by (auto simp: process_file_def Let_def finally_unlink_fields try_except_files
      split: sum.splits option.splits)

lemma process_files_files:
  "process_files env lang idx fs st = Done st' \<Longrightarrow>
     files st' = files st -
       {tmp. \<exists>p \<in> set (enumerate idx fs).
               named_temporary_file env (fst p) (suffix_of (snd p)) = Inr tmp}"
proof (induction fs arbitrary: idx st)
  case Nil
  then show ?case by simp
next
  case (Cons f fs)
  from Cons.prems obtain st1 where 1: "process_file env lang idx f st = Done st1"
    and 2: "process_files env lang (Suc idx) fs st1 = Done st'"
    by (auto split: outcome.splits)
  from process_file_files[OF 1] obtain tmp
    where tmp: "named_temporary_file env idx (suffix_of f) = Inr tmp"
      and f1: "files st1 = files st - {tmp}" by blast
  from Cons.IH[OF 2] f1 tmp show ?case by auto
qed

text \<open>The run of the first example host on the two files.\<close>

lemma suffix_of_file_a: "suffix_of file_a = ''.mp3''"
  by (simp add: suffix_of_def split_last_def file_a_def)

lemma suffix_of_file_b: "suffix_of file_b = ''.wav''"
  by (simp add: suffix_of_def split_last_def file_b_def)

lemma file_names: "item_name file_a = ''a.mp3''" "item_name file_b = ''b.wav''"
  by (simp_all add: file_a_def file_b_def)

lemma demo_step_a:
  "process_file demo_env [] 0 file_a empty_state =
     Done (empty_state\<lparr>st_errors := [(''a.mp3'', Raised ''corrupt file'')]\<rparr>)"
  by (simp add: process_file_def suffix_of_file_a demo_env_def try_except_def
      finally_unlink_def empty_state_def file_names)

lemma demo_step_b:
  "process_file demo_env [] (Suc 0) file_b (empty_state\<lparr>st_errors := [(''a.mp3'', Raised ''corrupt file'')]\<rparr>) =
     Done \<lparr>files = {},
           all_results = [\<lparr>filename = ''b.wav'', full_text = ''hi'', transcribe_time = 2,
             segments = [\<lparr>seg_start = 3 / 2, seg_end = 13 / 4, seg_text = ''hi''\<rparr>]\<rparr>],
           all_timestamps = [\<lparr>ts_filename = ''b.wav'',
             timestamp_text = ''[00:00:01.500 --> 00:00:03.250] hi\<newline>''\<rparr>],
           st_errors = [(''a.mp3'', Raised ''corrupt file'')]\<rparr>"
  by (simp add: process_file_def suffix_of_file_b demo_env_def try_except_def
      finally_unlink_def empty_state_def file_names formatted_1500 formatted_3250
      segment_line_def Let_def)

lemma demo_run:
  "main_batch demo_env [] [file_a, file_b] {} =
     Done \<lparr>files = {},
           all_results = [\<lparr>filename = ''b.wav'', full_text = ''hi'', transcribe_time = 2,
             segments = [\<lparr>seg_start = 3 / 2, seg_end = 13 / 4, seg_text = ''hi''\<rparr>]\<rparr>],
           all_timestamps = [\<lparr>ts_filename = ''b.wav'',
             timestamp_text = ''[00:00:01.500 --> 00:00:03.250] hi\<newline>''\<rparr>],
           st_errors = [(''a.mp3'', Raised ''corrupt file'')]\<rparr>"
  unfolding main_batch_def empty_state_def[symmetric]
  by (simp add: demo_step_a demo_step_b)

text \<open>
  C1. If the call of \<^verbatim>\<open>model.transcribe\<close> for an item raises (its temporary file having
  been written), the pass for that item comes to its end with both result lists as they
  were and the failure shown with the file name and the exception, and the loop goes on
  with the items after it: the batch on the item and the rest is the batch on the rest,
  started in that state.
\<close>

theorem transcription_failure_is_local:
  assumes "named_temporary_file env idx (suffix_of f) = Inr tmp"
    and "tmp_write env idx tmp (item_bytes f) = None"
    and "model_transcribe env idx tmp (transcribe_options lang) = Inl e"
  shows "\<exists>st'. process_file env lang idx f st = Done st' \<and>
           all_results st' = all_results st \<and>
           all_timestamps st' = all_timestamps st \<and>
           st_errors st' = st_errors st @ [(item_name f, e)] \<and>
           process_files env lang idx (f # rest) st = process_files env lang (Suc idx) rest st'"
  using assms
  by (simp add: process_file_def Let_def try_except_raises finally_unlink_fields finally_unlink_def)

theorem transcription_failure_is_local_witness:
  "\<exists>st'. process_file demo_env [] 0 file_a empty_state = Done st' \<and>
           all_results st' = all_results empty_state \<and>
           all_timestamps st' = all_timestamps empty_state \<and>
           st_errors st' = st_errors empty_state @ [(item_name file_a, Raised ''corrupt file'')] \<and>
           process_files demo_env [] 0 [file_a, file_b] empty_state =
             process_files demo_env [] (Suc 0) [file_b] st'"
proof -
  have 1: "named_temporary_file demo_env 0 (suffix_of file_a) = Inr ''/tmp/tmp.mp3''"
    by (simp add: demo_env_def suffix_of_file_a)
  have 2: "tmp_write demo_env 0 ''/tmp/tmp.mp3'' (item_bytes file_a) = None"
    by (simp add: demo_env_def)
  have 3: "model_transcribe demo_env 0 ''/tmp/tmp.mp3'' (transcribe_options []) =
      Inl (Raised ''corrupt file'')"
    by (simp add: demo_env_def)
  from transcription_failure_is_local[OF 1 2 3, of empty_state "[file_b]"]
  show ?thesis .
qed

text \<open>
  C10. If making the temporary file of an item or writing the bytes to it raises, the
  exception is not caught: the whole loop is left with that exception, whatever items
  follow, and in the state reached both result lists and the failures shown are as they
  were before the item.
\<close>

theorem persist_error_aborts_batch:
  assumes "named_temporary_file env idx (suffix_of f) = Inl e \<or>
           (\<exists>tmp. named_temporary_file env idx (suffix_of f) = Inr tmp \<and>
                  tmp_write env idx tmp (item_bytes f) = Some e)"
  shows "\<exists>st'. process_files env lang idx (f # rest) st = Uncaught e st' \<and>
           all_results st' = all_results st \<and>
           all_timestamps st' = all_timestamps st \<and>
           st_errors st' = st_errors st"
  using assms by (auto simp: process_file_def Let_def)

theorem persist_error_aborts_batch_witness:
  "\<exists>st'. process_files full_disk_env [] 0 [file_a, file_b] empty_state =
           Uncaught (Raised ''No space left on device'') st' \<and>
         all_results st' = all_results empty_state \<and>
         all_timestamps st' = all_timestamps empty_state \<and>
         st_errors st' = st_errors empty_state"
proof -
  have "\<exists>tmp. named_temporary_file full_disk_env 0 (suffix_of file_a) = Inr tmp \<and>
      tmp_write full_disk_env 0 tmp (item_bytes file_a) = Some (Raised ''No space left on device'')"
    by (simp add: full_disk_env_def)
  then show ?thesis
    using persist_error_aborts_batch[of full_disk_env 0 file_a
        "Raised ''No space left on device''" "[]" "[file_b]" empty_state]
    by blast
qed

text \<open>
  C2. Claim: the temporary file of an item is deleted on every exit path of its pass,
  also when writing the bytes raises, so that none exists when the batch is over. The
  script does so after success and after a caught exception (\<open>process_files_files\<close>),
  but the \<^verbatim>\<open>with\<close> block that creates and writes the file stands before the \<^verbatim>\<open>try\<close>
  whose \<^verbatim>\<open>finally\<close> deletes it: for the one file \<^verbatim>\<open>a.mp3\<close> on a host where the write
  raises, the loop is left with the file \<^verbatim>\<open>/tmp/tmp.mp3\<close> still there.
\<close>

theorem temporary_file_left_behind:
  "main_batch full_disk_env [] [file_a] {} =
     Uncaught (Raised ''No space left on device'')
       \<lparr>files = {''/tmp/tmp.mp3''}, all_results = [], all_timestamps = [], st_errors = []\<rparr>"
  by (simp add: main_batch_def process_file_def suffix_of_file_a full_disk_env_def)

text \<open>
  C5. When the batch comes to its end, the results are exactly the results of the items
  whose transcription returned, one for each, none for an item whose transcription raised,
  in the order of the items.
\<close>

theorem results_in_input_order:
  assumes "main_batch env lang fs existing = Done st'"
  shows "all_results st' = List.map_filter (result_of env lang) (enumerate 0 fs)"
  using process_files_results[OF assms[unfolded main_batch_def]] by simp

theorem results_in_input_order_witness:
  "List.map_filter (result_of demo_env []) (enumerate 0 [file_a, file_b]) =
     [\<lparr>filename = ''b.wav'', full_text = ''hi'', transcribe_time = 2,
       segments = [\<lparr>seg_start = 3 / 2, seg_end = 13 / 4, seg_text = ''hi''\<rparr>]\<rparr>]"
  using results_in_input_order[OF demo_run] by simp

text \<open>
  A pass keeps the two lists parallel when the formatting of the segments of its item
  returns: it appends either to neither list or one entry of the same file name to each.
  So does the loop.
\<close>

lemma process_file_parallel:
  assumes "parallel st" and "process_file env lang idx f st = Done st'"
    and "\<forall>r. result_of env lang (idx, f) = Some r \<longrightarrow>
           (\<exists>out. timestamp_loop (segments r) [] = Inr out)"
  shows "parallel st'"
proof -
  from assms(2) obtain tmp where tmp: "named_temporary_file env idx (suffix_of f) = Inr tmp"
    and st': "st' = finally_unlink tmp
        (try_except env lang idx f tmp (st\<lparr>files := insert tmp (files st)\<rparr>))"
    by (auto simp: process_file_def Let_def split: sum.splits option.splits)
  show ?thesis
  proof (cases "model_transcribe env idx tmp (transcribe_options lang)")
    case (Inl e)
    with assms(1) show ?thesis
      by (simp add: st' parallel_def finally_unlink_fields try_except_def)
  next
    case (Inr result)
    with tmp assms(3)
    obtain out where "timestamp_loop (res_segments result) [] = Inr out"
      by (auto simp: result_of_def)
    with Inr assms(1) show ?thesis
      by (simp add: st' parallel_def finally_unlink_fields try_except_def Let_def)
  qed
qed

lemma process_files_parallel:
  "parallel st \<Longrightarrow> process_files env lang idx fs st = Done st' \<Longrightarrow>
   \<forall>p \<in> set (enumerate idx fs). \<forall>r. result_of env lang p = Some r \<longrightarrow>
      (\<exists>out. timestamp_loop (segments r) [] = Inr out) \<Longrightarrow>
   parallel st'"
proof (induction fs arbitrary: idx st)
  case Nil
  then show ?case by simp
next
  case (Cons f fs)
  from Cons.prems(2) obtain st1 where 1: "process_file env lang idx f st = Done st1"
    and 2: "process_files env lang (Suc idx) fs st1 = Done st'"
    by (auto split: outcome.splits)
  from Cons.prems(3) have "parallel st1"
    by (intro process_file_parallel[OF Cons.prems(1) 1]) simp
  from Cons.IH[OF this 2] Cons.prems(3) show ?case by simp
qed

text \<open>
  C9. When the batch comes to its end, the two lists have the same length and the same
  file name at every index, given that the formatting of the segments returns for every
  transcribed item. It does for every segment list whose times are those of an audio: an
  exception of the formatting needs a time outside the years 1 to 9999 of the calendar
  (\<open>timestamp_loop_in_calendar\<close>).
\<close>

theorem results_and_timestamps_parallel:
  assumes "main_batch env lang fs existing = Done st'"
    and "\<forall>p \<in> set (enumerate 0 fs). \<forall>r. result_of env lang p = Some r \<longrightarrow>
           (\<exists>out. timestamp_loop (segments r) [] = Inr out)"
  shows "length (all_results st') = length (all_timestamps st') \<and>
         (\<forall>i < length (all_results st').
            filename (all_results st' ! i) = ts_filename (all_timestamps st' ! i))"
proof -
  have "parallel \<lparr>files = existing, all_results = [], all_timestamps = [], st_errors = []\<rparr>"
    by (simp add: parallel_def)
  from process_files_parallel[OF this assms(1)[unfolded main_batch_def] assms(2)]
  have eq: "map filename (all_results st') = map ts_filename (all_timestamps st')"
    by (simp add: parallel_def)
  then have len: "length (all_results st') = length (all_timestamps st')"
    by (rule map_eq_imp_length_eq)
  have "filename (all_results st' ! i) = ts_filename (all_timestamps st' ! i)"
    if "i < length (all_results st')" for i
  proof -
    from that have "filename (all_results st' ! i) = map filename (all_results st') ! i"
      by simp
    also have "\<dots> = map ts_filename (all_timestamps st') ! i"
      by (simp only: eq)
    also from that len have "\<dots> = ts_filename (all_timestamps st' ! i)"
      by simp
    finally show ?thesis .
  qed
  with len show ?thesis by blast
qed

theorem results_and_timestamps_parallel_witness:
  "length (all_results (final_state (main_batch demo_env [] [file_a, file_b] {}))) =
     length (all_timestamps (final_state (main_batch demo_env [] [file_a, file_b] {}))) \<and>
   filename (all_results (final_state (main_batch demo_env [] [file_a, file_b] {})) ! 0) =
     ts_filename (all_timestamps (final_state (main_batch demo_env [] [file_a, file_b] {})) ! 0)"
proof -
  have a: "result_of demo_env [] (0, file_a) = None"
    by (simp add: result_of_def demo_env_def)
  have b: "result_of demo_env [] (Suc 0, file_b) =
      Some \<lparr>filename = ''b.wav'', full_text = ''hi'', transcribe_time = 2,
        segments = [\<lparr>seg_start = 3 / 2, seg_end = 13 / 4, seg_text = ''hi''\<rparr>]\<rparr>"
    by (simp add: result_of_def demo_env_def file_names)
  have "\<forall>p \<in> set (enumerate 0 [file_a, file_b]). \<forall>r. result_of demo_env [] p = Some r \<longrightarrow>
      (\<exists>out. timestamp_loop (segments r) [] = Inr out)"
    by (auto simp: a b formatted_1500 formatted_3250)
  from results_and_timestamps_parallel[OF demo_run this] show ?thesis
    by (simp add: demo_run)
qed

section \<open>The combined text\<close>

lemma combine_loop_fst:
  "fst (combine_loop rs ts (ct, ctt)) =
     ct @ concat (map (\<lambda>r. header (filename r) @ full_text r @ [CHR 0x0A, CHR 0x0A]) rs)"
  by (induction rs arbitrary: ct ctt) simp_all

text \<open>
  C7. For two results of the files \<^verbatim>\<open>a.mp3\<close> and \<^verbatim>\<open>b.wav\<close> with the texts \<^verbatim>\<open>Hello\<close>
  and \<^verbatim>\<open>World\<close> the combined text is exactly
  \<^verbatim>\<open>=== a.mp3 ===\n\nHello\n\n=== b.wav ===\n\nWorld\n\n\<close>; and for any results the loop
  builds, in their order, a header \<^verbatim>\<open>=== filename ===\<close>, an empty line, the text and
  an empty line for each.
\<close>

theorem combined_text_format:
  "map_option fst
     (combined_download
        [\<lparr>filename = ''a.mp3'', full_text = ''Hello'', transcribe_time = t1, segments = s1\<rparr>,
         \<lparr>filename = ''b.wav'', full_text = ''World'', transcribe_time = t2, segments = s2\<rparr>] ts) =
     Some ''=== a.mp3 ===\<newline>\<newline>Hello\<newline>\<newline>=== b.wav ===\<newline>\<newline>World\<newline>\<newline>'' \<and>
   fst (combine_loop rs ts ([], [])) =
     concat (map (\<lambda>r. ''=== '' @ filename r @ '' ==='' @ [CHR 0x0A, CHR 0x0A] @
                        full_text r @ [CHR 0x0A, CHR 0x0A]) rs)"
  by (simp add: combined_download_def combine_loop_fst header_def)

section \<open>The model provider\<close>

lemma load_cached:
  "map_of (cache p) name = Some m \<Longrightarrow> load_whisper_model h p name = (Inr m, p)"
  by (simp add: load_whisper_model_def)

lemma load_keeps_cached:
  "map_of (cache p) name = Some m \<Longrightarrow>
     map_of (cache (snd (load_whisper_model h p n))) name = Some m"
  by (auto simp: load_whisper_model_def load_body_def Let_def split: option.splits)

lemma load_keeps_loads_of:
  "map_of (cache p) name = Some m \<Longrightarrow>
     filter (\<lambda>c. fst c = name) (load_calls (snd (load_whisper_model h p n))) =
     filter (\<lambda>c. fst c = name) (load_calls p)"
  by (auto simp: load_whisper_model_def load_body_def Let_def split: option.splits)

lemma calls_keep_cached:
  "map_of (cache p) name = Some m \<Longrightarrow>
     map_of (cache (calls h p ns)) name = Some m \<and>
     filter (\<lambda>c. fst c = name) (load_calls (calls h p ns)) =
     filter (\<lambda>c. fst c = name) (load_calls p)"
proof (induction ns arbitrary: p)
  case Nil
  then show ?case by simp
next
  case (Cons n ns)
  from Cons.IH[OF load_keeps_cached[OF Cons.prems, of h n]]
    load_keeps_loads_of[OF Cons.prems, of h n]
  show ?case by simp
qed

lemma load_returns_cached:
  "load_whisper_model h p name = (Inr m, p1) \<Longrightarrow> map_of (cache p1) name = Some m"
  by (auto simp: load_whisper_model_def load_body_def Let_def split: option.splits)

text \<open>
  C6. A call for a name that is not in the cache calls \<^verbatim>\<open>whisper.load_model\<close> once, with
  that name and with CUDA if it is available and the CPU otherwise: when the load returns,
  the call returns the new handle on that device and stores it; when the load raises, so
  does the call. And once a call for a name has returned a handle, every later call for
  that name, whatever calls come between, returns the same handle and leaves the provider
  as it is, and no call in between has loaded that name again. The example is the name
  \<^verbatim>\<open>base\<close>.
\<close>

theorem model_loaded_once:
  "(map_of (cache p) name = None \<longrightarrow>
      (whisper_load_model h name (if cuda_is_available h then Cuda else Cpu) = None \<longrightarrow>
         load_whisper_model h p name =
           (Inr \<lparr>handle_id = length (load_calls p), handle_name = name,
                 handle_device = (if cuda_is_available h then Cuda else Cpu)\<rparr>,
            p\<lparr>cache := (name,
                  \<lparr>handle_id = length (load_calls p), handle_name = name,
                    handle_device = (if cuda_is_available h then Cuda else Cpu)\<rparr>) # cache p,
               load_calls :=
                 load_calls p @ [(name, if cuda_is_available h then Cuda else Cpu)]\<rparr>)) \<and>
      (\<forall>e. whisper_load_model h name (if cuda_is_available h then Cuda else Cpu) = Some e \<longrightarrow>
         load_whisper_model h p name =
           (Inl e,
            p\<lparr>load_calls :=
                 load_calls p @ [(name, if cuda_is_available h then Cuda else Cpu)]\<rparr>))) \<and>
   (\<forall>m p1 ns. load_whisper_model h p name = (Inr m, p1) \<longrightarrow>
      load_whisper_model h (calls h p1 ns) name = (Inr m, calls h p1 ns) \<and>
      filter (\<lambda>c. fst c = name) (load_calls (calls h p1 ns)) =
      filter (\<lambda>c. fst c = name) (load_calls p1))"
proof (intro conjI allI impI)
  assume "map_of (cache p) name = None"
    "whisper_load_model h name (if cuda_is_available h then Cuda else Cpu) = None"
  then show "load_whisper_model h p name =
           (Inr \<lparr>handle_id = length (load_calls p), handle_name = name,
                 handle_device = (if cuda_is_available h then Cuda else Cpu)\<rparr>,
            p\<lparr>cache := (name,
                  \<lparr>handle_id = length (load_calls p), handle_name = name,
                    handle_device = (if cuda_is_available h then Cuda else Cpu)\<rparr>) # cache p,
               load_calls :=
                 load_calls p @ [(name, if cuda_is_available h then Cuda else Cpu)]\<rparr>)"
    by (simp add: load_whisper_model_def load_body_def)
next
  fix e
  assume "map_of (cache p) name = None"
    "whisper_load_model h name (if cuda_is_available h then Cuda else Cpu) = Some e"
  then show "load_whisper_model h p name =
           (Inl e,
            p\<lparr>load_calls :=
                 load_calls p @ [(name, if cuda_is_available h then Cuda else Cpu)]\<rparr>)"
    by (simp add: load_whisper_model_def load_body_def)
next
  fix m p1 ns
  assume "load_whisper_model h p name = (Inr m, p1)"
  from calls_keep_cached[OF load_returns_cached[OF this], of h ns]
  show "load_whisper_model h (calls h p1 ns) name = (Inr m, calls h p1 ns)"
    by (simp add: load_cached)
next
  fix m p1 ns
  assume "load_whisper_model h p name = (Inr m, p1)"
  from calls_keep_cached[OF load_returns_cached[OF this], of h ns]
  show "filter (\<lambda>c. fst c = name) (load_calls (calls h p1 ns)) =
      filter (\<lambda>c. fst c = name) (load_calls p1)"
    by simp
qed

text \<open>
  On the host with CUDA: the first call for \<^verbatim>\<open>base\<close> loads it on CUDA; after calls for
  \<^verbatim>\<open>tiny\<close> and again \<^verbatim>\<open>base\<close> a call for \<^verbatim>\<open>base\<close> returns the handle of the first, and
  the log holds one load of \<^verbatim>\<open>base\<close> and one of \<^verbatim>\<open>tiny\<close>. On the host without CUDA
  the load is on the CPU; on the third host the call for \<^verbatim>\<open>large\<close> raises.
\<close>

theorem model_loaded_once_witness:
  "load_whisper_model gpu_host empty_provider ''base'' =
     (Inr \<lparr>handle_id = 0, handle_name = ''base'', handle_device = Cuda\<rparr>,
      \<lparr>cache = [(''base'', \<lparr>handle_id = 0, handle_name = ''base'', handle_device = Cuda\<rparr>)],
        load_calls = [(''base'', Cuda)]\<rparr>) \<and>
   fst (load_whisper_model gpu_host
     (calls gpu_host
        \<lparr>cache = [(''base'', \<lparr>handle_id = 0, handle_name = ''base'', handle_device = Cuda\<rparr>)],
          load_calls = [(''base'', Cuda)]\<rparr> [''tiny'', ''base'']) ''base'') =
     Inr \<lparr>handle_id = 0, handle_name = ''base'', handle_device = Cuda\<rparr> \<and>
   load_calls (snd (load_whisper_model gpu_host
     (calls gpu_host
        \<lparr>cache = [(''base'', \<lparr>handle_id = 0, handle_name = ''base'', handle_device = Cuda\<rparr>)],
          load_calls = [(''base'', Cuda)]\<rparr> [''tiny'', ''base'']) ''base'')) =
     [(''base'', Cuda), (''tiny'', Cuda)] \<and>
   fst (load_whisper_model cpu_host empty_provider ''base'') =
     Inr \<lparr>handle_id = 0, handle_name = ''base'', handle_device = Cpu\<rparr> \<and>
   load_whisper_model small_gpu_host empty_provider ''large'' =
     (Inl (Raised ''CUDA out of memory''),
      \<lparr>cache = [], load_calls = [(''large'', Cuda)]\<rparr>)"
proof -
  have 1: "map_of (cache empty_provider) n = None" for n
    by (simp add: empty_provider_def)
  have 2: "whisper_load_model gpu_host ''base''
      (if cuda_is_available gpu_host then Cuda else Cpu) = None"
    by (simp add: gpu_host_def)
  have 3: "whisper_load_model cpu_host ''base''
      (if cuda_is_available cpu_host then Cuda else Cpu) = None"
    by (simp add: cpu_host_def)
  have 4: "whisper_load_model small_gpu_host ''large''
      (if cuda_is_available small_gpu_host then Cuda else Cpu) = Some (Raised ''CUDA out of memory'')"
    by (simp add: small_gpu_host_def)
  note g = model_loaded_once[of empty_provider "''base''" gpu_host]
  note c = model_loaded_once[of empty_provider "''base''" cpu_host]
  note l = model_loaded_once[of empty_provider "''large''" small_gpu_host]
  from g 1 2 have first: "load_whisper_model gpu_host empty_provider ''base'' =
     (Inr \<lparr>handle_id = 0, handle_name = ''base'', handle_device = Cuda\<rparr>,
      \<lparr>cache = [(''base'', \<lparr>handle_id = 0, handle_name = ''base'', handle_device = Cuda\<rparr>)],
        load_calls = [(''base'', Cuda)]\<rparr>)"
    by (simp add: empty_provider_def gpu_host_def)
  from g first have later: "load_whisper_model gpu_host
     (calls gpu_host
        \<lparr>cache = [(''base'', \<lparr>handle_id = 0, handle_name = ''base'', handle_device = Cuda\<rparr>)],
          load_calls = [(''base'', Cuda)]\<rparr> [''tiny'', ''base'']) ''base'' =
     (Inr \<lparr>handle_id = 0, handle_name = ''base'', handle_device = Cuda\<rparr>,
      calls gpu_host
        \<lparr>cache = [(''base'', \<lparr>handle_id = 0, handle_name = ''base'', handle_device = Cuda\<rparr>)],
          load_calls = [(''base'', Cuda)]\<rparr> [''tiny'', ''base''])"
    by blast
  have log: "load_calls (calls gpu_host
        \<lparr>cache = [(''base'', \<lparr>handle_id = 0, handle_name = ''base'', handle_device = Cuda\<rparr>)],
          load_calls = [(''base'', Cuda)]\<rparr> [''tiny'', ''base'']) =
     [(''base'', Cuda), (''tiny'', Cuda)]"
    by (simp add: load_whisper_model_def load_body_def gpu_host_def)
  from c 1 3 have cpu: "fst (load_whisper_model cpu_host empty_provider ''base'') =
     Inr \<lparr>handle_id = 0, handle_name = ''base'', handle_device = Cpu\<rparr>"
    by (simp add: empty_provider_def cpu_host_def)
  from l 1 4 have large: "load_whisper_model small_gpu_host empty_provider ''large'' =
     (Inl (Raised ''CUDA out of memory''),
      \<lparr>cache = [], load_calls = [(''large'', Cuda)]\<rparr>)"
    by (simp add: empty_provider_def small_gpu_host_def)
  from first later log cpu large show ?thesis by simp
qed

section \<open>The probe\<close>

text \<open>
  What \<^verbatim>\<open>check_ffmpeg\<close> does to the environment, case by case: it changes \<^verbatim>\<open>PATH\<close> only
  when the first run returned a code other than 0, the Chocolatey path exists, the run of
  the executable there returned 0 and \<^verbatim>\<open>PATH\<close> is set. When the first run raises, the
  outer handler returns at once.
\<close>

lemma environ_after_cases:
  "environ_after h environ =
     (case run_ffmpeg h of
        Inl e \<Rightarrow> environ
      | Inr returncode \<Rightarrow>
          if returncode \<noteq> 0 \<and> chocolatey_exists h \<and> run_chocolatey h = Inr 0 then
            (case environ ''PATH'' of
               None \<Rightarrow> environ
             | Some v \<Rightarrow> environ(''PATH'' \<mapsto> chocolatey_bin @ v))
          else environ)"
  by (simp add: environ_after_def check_ffmpeg_def not_found_def
      split: sum.splits option.splits)

lemma check_ffmpeg_run_raises:
  "run_ffmpeg h = Inl e \<Longrightarrow>
     check_ffmpeg h environ = (False, environ, [Warning_check_problem e, Info_check_install])"
  by (simp add: check_ffmpeg_def)

text \<open>
  C8. Claim: the probe puts the Chocolatey directory before \<^verbatim>\<open>PATH\<close> if and only if the
  first lookup fails and the executable at the Chocolatey path exists and answers. The
  script does so when the first run returns a code other than 0: on the second example host
  \<^verbatim>\<open>PATH\<close> becomes \<^verbatim>\<open>C:\ProgramData\chocolatey\bin;C:/Windows\<close>. But when
  \<^verbatim>\<open>ffmpeg\<close> is not on the search path, \<^verbatim>\<open>subprocess.run\<close> raises, the outer handler
  (lines 63-67) returns \<^verbatim>\<open>False\<close> at once, and the Chocolatey path, of which the comment
  of line 43 says that it is checked when the executable is not found on the normal path, is
  never looked at: on the first example host, with the same working executable there, the
  environment stays as it is.
\<close>

theorem fallback_skipped_when_ffmpeg_missing:
  "check_ffmpeg missing_ffmpeg_host windows_environ =
     (False, windows_environ,
      [Warning_check_problem (Raised ''[Errno 2] No such file or directory''),
       Info_check_install]) \<and>
   check_ffmpeg chocolatey_host windows_environ =
     (True,
      [''PATH'' \<mapsto>
         ''C:'' @ [CHR 0x5C] @ ''ProgramData'' @ [CHR 0x5C] @ ''chocolatey'' @ [CHR 0x5C] @
         ''bin;C:/Windows''],
      [Success_chocolatey])"
  by (simp add: check_ffmpeg_def missing_ffmpeg_host_def chocolatey_host_def
      windows_environ_def chocolatey_bin_def)

end
